theory Spec2Isabelle
  imports Main "HOL-Library.Code_Target_Nat"
begin

section \<open>Go strings\<close>

text \<open>
  A Go string is a sequence of bytes; \<^typ>\<open>string\<close> (a list of 8-bit characters)
  models it byte for byte. The functions of the Go packages \<^verbatim>\<open>strings\<close>,
  \<^verbatim>\<open>bufio\<close>, \<^verbatim>\<open>strconv\<close> and \<^verbatim>\<open>encoding/csv\<close> that
  \<^verbatim>\<open>wmi.go\<close> calls are written out below, each under the name it has in Go.
\<close>

definition HasPrefix :: "string \<Rightarrow> string \<Rightarrow> bool" where
  "HasPrefix s p = (length p \<le> length s \<and> take (length p) s = p)"

definition HasSuffix :: "string \<Rightarrow> string \<Rightarrow> bool" where
  "HasSuffix s p = (length p \<le> length s \<and> drop (length s - length p) s = p)"

text \<open>
  \<^verbatim>\<open>unicode.IsSpace\<close>: the white space runes, as their UTF-8 encodings. They are the six
  ASCII ones, U+0085, U+00A0, U+1680, U+2000 to U+200A, U+2028, U+2029, U+202F, U+205F and
  U+3000. No encoding is a prefix or a suffix of another.
\<close>

definition space_runes :: "string list" where
  "space_runes =
     [[CHR 0x09], [CHR 0x0A], [CHR 0x0B], [CHR 0x0C], [CHR 0x0D], [CHR 0x20],
      [CHR 0xC2, CHR 0x85], [CHR 0xC2, CHR 0xA0],
      [CHR 0xE1, CHR 0x9A, CHR 0x80],
      [CHR 0xE2, CHR 0x80, CHR 0x80], [CHR 0xE2, CHR 0x80, CHR 0x81],
      [CHR 0xE2, CHR 0x80, CHR 0x82], [CHR 0xE2, CHR 0x80, CHR 0x83],
      [CHR 0xE2, CHR 0x80, CHR 0x84], [CHR 0xE2, CHR 0x80, CHR 0x85],
      [CHR 0xE2, CHR 0x80, CHR 0x86], [CHR 0xE2, CHR 0x80, CHR 0x87],
      [CHR 0xE2, CHR 0x80, CHR 0x88], [CHR 0xE2, CHR 0x80, CHR 0x89],
      [CHR 0xE2, CHR 0x80, CHR 0x8A],
      [CHR 0xE2, CHR 0x80, CHR 0xA8], [CHR 0xE2, CHR 0x80, CHR 0xA9],
      [CHR 0xE2, CHR 0x80, CHR 0xAF],
      [CHR 0xE2, CHR 0x81, CHR 0x9F],
      [CHR 0xE3, CHR 0x80, CHR 0x80]]"

text \<open>The number of bytes of the white space rune that \<open>s\<close> starts with (ends with); 0 if none.\<close>

definition leading_space :: "string \<Rightarrow> nat" where
  "leading_space s = (case List.find (HasPrefix s) space_runes of None \<Rightarrow> 0 | Some p \<Rightarrow> length p)"

definition trailing_space :: "string \<Rightarrow> nat" where
  "trailing_space s = (case List.find (HasSuffix s) space_runes of None \<Rightarrow> 0 | Some p \<Rightarrow> length p)"

lemma find_space_runes_nonempty: "List.find P space_runes = Some p \<Longrightarrow> p \<noteq> []"
  by (auto simp: find_Some_iff space_runes_def nth_Cons' split: if_splits)

lemma leading_space_le: "leading_space s \<le> length s"
  by (auto simp: leading_space_def HasPrefix_def find_Some_iff split: option.splits)

lemma trailing_space_le: "trailing_space s \<le> length s"
  by (auto simp: trailing_space_def HasSuffix_def find_Some_iff split: option.splits)

lemma leading_space_pos: "0 < leading_space s \<Longrightarrow> length s - leading_space s < length s"
  using leading_space_le [of s] by auto

lemma trailing_space_pos: "0 < trailing_space s \<Longrightarrow> length s - trailing_space s < length s"
  using trailing_space_le [of s] by auto

text \<open>\<^verbatim>\<open>strings.TrimLeftFunc(s, unicode.IsSpace)\<close> and its mirror image.\<close>

function TrimLeft :: "string \<Rightarrow> string" where
  "TrimLeft s = (if leading_space s = 0 then s else TrimLeft (drop (leading_space s) s))"
  by pat_completeness auto
termination
  by (relation "measure length") (auto intro: leading_space_pos)

function TrimRight :: "string \<Rightarrow> string" where
  "TrimRight s =
     (if trailing_space s = 0 then s else TrimRight (take (length s - trailing_space s) s))"
  by pat_completeness auto
termination
  by (relation "measure length") (auto intro: trailing_space_pos)

declare TrimLeft.simps [simp del] TrimRight.simps [simp del]

definition TrimSpace :: "string \<Rightarrow> string" where
  "TrimSpace s = TrimRight (TrimLeft s)"

text \<open>
  \<^verbatim>\<open>strings.Split(s, sep)\<close> for a separator of one byte: the pieces between the
  occurrences of the separator, one more than there are occurrences. It is written for lists
  of any type, so that it can also cut a list of lines at its blank lines.
\<close>

fun Split :: "'a list \<Rightarrow> 'a \<Rightarrow> 'a list list" where
  "Split [] c = [[]]"
| "Split (x # xs) c =
     (if x = c then [] # Split xs c
      else (case Split xs c of [] \<Rightarrow> [[x]] | p # ps \<Rightarrow> (x # p) # ps))"

text \<open>\<^verbatim>\<open>strings.SplitN(s, sep, 2)\<close> for a separator of one byte: at most two pieces.\<close>

definition SplitN2 :: "string \<Rightarrow> char \<Rightarrow> string list" where
  "SplitN2 s c =
     (case dropWhile (\<lambda>x. x \<noteq> c) s of
        [] \<Rightarrow> [s]
      | _ # rest \<Rightarrow> [takeWhile (\<lambda>x. x \<noteq> c) s, rest])"

fun Join :: "string list \<Rightarrow> string \<Rightarrow> string" where
  "Join [] sep = []"
| "Join [x] sep = x"
| "Join (x # y # ys) sep = x @ sep @ Join (y # ys) sep"

text \<open>\<^verbatim>\<open>strings.ReplaceAll(s, old, "")\<close> for \<open>old\<close> of one byte.\<close>

definition RemoveAll :: "string \<Rightarrow> char \<Rightarrow> string" where
  "RemoveAll s c = filter (\<lambda>x. x \<noteq> c) s"

subsection \<open>bufio.Scanner\<close>

text \<open>
  \<^verbatim>\<open>bufio.NewScanner\<close> with the default split function \<^verbatim>\<open>ScanLines\<close>: the
  text is cut at each newline, a last line without a newline is a token when it is not empty,
  and one trailing carriage return is dropped from each token. A line that does not fit the
  scanner's buffer with its newline (\<^verbatim>\<open>MaxScanTokenSize\<close>, 64 KiB) makes
  \<^verbatim>\<open>Scan\<close> return false; neither \<^verbatim>\<open>Query\<close> looks at
  \<^verbatim>\<open>scanner.Err()\<close>, so the lines from there on are never seen.
\<close>

definition MaxScanTokenSize :: nat where
  "MaxScanTokenSize = 65536"

definition raw_lines :: "string \<Rightarrow> string list" where
  "raw_lines str = (let ps = Split str (CHR 0x0A) in if last ps = [] then butlast ps else ps)"

definition dropCR :: "string \<Rightarrow> string" where
  "dropCR l = (if l \<noteq> [] \<and> last l = CHR 0x0D then butlast l else l)"

definition ScanLines :: "string \<Rightarrow> string list" where
  "ScanLines str = map dropCR (takeWhile (\<lambda>l. length l < MaxScanTokenSize) (raw_lines str))"

subsection \<open>strconv\<close>

text \<open>
  \<^verbatim>\<open>strconv.ParseUint(s, 10, bits)\<close> and \<^verbatim>\<open>strconv.ParseInt(s, 10, bits)\<close>:
  decimal digits only (an underscore is accepted in base 0 alone), for \<^verbatim>\<open>ParseInt\<close> after
  one optional sign, and the value must fit \<open>bits\<close> bits. \<open>None\<close> is a non-nil error; the
  callers look at nothing else of it.
\<close>

definition digit :: "char \<Rightarrow> nat option" where
  "digit c = (let n = (of_char c :: nat) in if 48 \<le> n \<and> n \<le> 57 then Some (n - 48) else None)"

fun digits :: "string \<Rightarrow> nat \<Rightarrow> nat option" where
  "digits [] acc = Some acc"
| "digits (c # cs) acc = (case digit c of None \<Rightarrow> None | Some d \<Rightarrow> digits cs (10 * acc + d))"

definition ParseUint :: "string \<Rightarrow> nat \<Rightarrow> nat option" where
  "ParseUint s bits =
     (if s = [] then None
      else (case digits s 0 of
              None \<Rightarrow> None
            | Some n \<Rightarrow> if n < 2 ^ bits then Some n else None))"

definition ParseInt :: "string \<Rightarrow> nat \<Rightarrow> int option" where
  "ParseInt s bits =
     (if s = [] then None
      else (let neg = (hd s = CHR ''-'');
                r = (if hd s = CHR ''+'' \<or> hd s = CHR ''-'' then tl s else s)
            in if r = [] then None
               else (case digits r 0 of
                       None \<Rightarrow> None
                     | Some un \<Rightarrow>
                         if \<not> neg \<and> un \<ge> 2 ^ (bits - 1) then None
                         else if neg \<and> un > 2 ^ (bits - 1) then None
                         else Some (if neg then - int un else int un))))"

definition ParseBool :: "string \<Rightarrow> bool option" where
  "ParseBool s =
     (if s \<in> set [''1'', ''t'', ''T'', ''TRUE'', ''true'', ''True''] then Some True
      else if s \<in> set [''0'', ''f'', ''F'', ''FALSE'', ''false'', ''False''] then Some False
      else None)"

section \<open>The data of wmi.go\<close>

text \<open>
  The destination record type, as reflection shows it: the struct's fields in declaration
  order, each with its name and kind. \<open>KInt b\<close> is a signed integer kind of \<open>b\<close> bits
  (\<^verbatim>\<open>f.Type().Bits()\<close>; \<^verbatim>\<open>int\<close> itself has 64 or 32), \<open>KUint b\<close> and
  \<open>KFloat b\<close> likewise, and \<open>KOther k\<close> is any kind outside the \<^verbatim>\<open>switch\<close> of
  \<^verbatim>\<open>set\<close>, with \<open>k\<close> what \<^verbatim>\<open>Kind().String()\<close> prints. The struct is flat and its
  fields are exported and have distinct names: those are the fields \<^verbatim>\<open>FieldByName\<close> finds
  and reflection may assign.
\<close>

datatype kind = KString | KInt nat | KUint nat | KFloat nat | KBool | KOther string

type_synonym struct_type = "(string \<times> kind) list"

text \<open>
  Field values. The floating point numbers are a type parameter \<open>'f\<close> with a zero, and
  \<^verbatim>\<open>strconv.ParseFloat\<close> is a parameter of the model.
\<close>

datatype 'f gvalue = VString string | VInt int | VUint nat | VFloat 'f | VBool bool | VOther

fun zero_value :: "kind \<Rightarrow> 'f::zero gvalue" where
  "zero_value KString = VString []"
| "zero_value (KInt b) = VInt 0"
| "zero_value (KUint b) = VUint 0"
| "zero_value (KFloat b) = VFloat 0"
| "zero_value KBool = VBool False"
| "zero_value (KOther k) = VOther"

type_synonym 'f item = "(string \<times> 'f gvalue) list"

text \<open>\<^verbatim>\<open>reflect.New(innerType)\<close>: a fresh record, every field at its zero value.\<close>

definition new_item :: "struct_type \<Rightarrow> 'f::zero item" where
  "new_item ty = map (\<lambda>(n, k). (n, zero_value k)) ty"

text \<open>The assignment to the field \<open>f\<close> of a record (\<^verbatim>\<open>v.SetString\<close>, \<^verbatim>\<open>v.SetInt\<close>, ...).\<close>

definition store :: "string \<Rightarrow> 'f gvalue \<Rightarrow> 'f item \<Rightarrow> 'f item" where
  "store f v it = map (\<lambda>(n, x). if n = f then (n, v) else (n, x)) it"

text \<open>
  The errors. \<open>SetError s\<close> is the error that \<^verbatim>\<open>fmt.Errorf("Unable to set field %s type %s",
  v.Type().Name, s)\<close> makes; \<open>RunError\<close> is a failure of \<^verbatim>\<open>cmd.Run\<close>, \<open>StderrError\<close>
  carries the text of the error channel; \<open>ReflectPanic\<close> is the panic of
  \<^verbatim>\<open>outerValue.Set\<close> on a slice that was not passed by pointer. The last three are the
  errors of the delimited pipeline: \<^verbatim>\<open>io.EOF\<close> and the two that \<^verbatim>\<open>csvutil\<close> returns
  from decoding a record.
\<close>

datatype error =
    FieldError string
  | UnsupportedTypeError string string
  | SetError string
  | NotSliceError
  | NotStructError
  | DurationError string
  | RunError string
  | StderrError string
  | ReflectPanic
  | EOF
  | UnmarshalTypeError string
  | UnsupportedFieldType string

text \<open>\<^verbatim>\<open>RecordError\<close>; \<open>Message\<close> holds the error whose \<^verbatim>\<open>Error()\<close> text the source stores.\<close>

record RecordError =
  Class :: string
  Field :: string
  Line :: nat
  Message :: error

text \<open>
  The argument \<^verbatim>\<open>out\<close>, as the reflection calls of the two \<^verbatim>\<open>Query\<close> functions see
  it: whether it is a slice (after a pointer was followed), whether it was passed by pointer
  (so that the slice can be assigned), whether the element type is a pointer, whether the
  element type (after that pointer was followed) is a struct, the struct's name and fields,
  and the elements the slice holds.
\<close>

record 'f dest =
  isSlice :: bool
  canSet :: bool
  innerTypeIsPointer :: bool
  innerIsStruct :: bool
  structName :: string
  structFields :: struct_type
  elems :: "'f item list"

text \<open>The external process: what \<^verbatim>\<open>cmd.Run\<close> returns and leaves in the two buffers.\<close>

record proc =
  RunErr :: "string option"
  Stdout :: string
  Stderr :: string

text \<open>
  What the code takes from outside: \<^verbatim>\<open>strconv.ParseFloat\<close> (the string and the bit
  size), \<^verbatim>\<open>time.ParseDuration\<close> (the duration in seconds), the run of
  \<^verbatim>\<open>wmic\<close> with a time bound, if any, and an argument list, and the step of the
  third-party package \<^verbatim>\<open>csvutil\<close> that fills a fresh record of a struct type from a
  header and a record of as many fields.
\<close>

record 'f world =
  ParseFloat :: "string \<Rightarrow> nat \<Rightarrow> 'f option"
  ParseDuration :: "string \<Rightarrow> nat option"
  wmic :: "nat option \<Rightarrow> string list \<Rightarrow> proc"
  Unmarshal :: "struct_type \<Rightarrow> string list \<Rightarrow> string list \<Rightarrow> error + 'f item"

section \<open>The key/value pipeline (the first file)\<close>

definition TIMEOUT_DEFAULT :: string where
  "TIMEOUT_DEFAULT = ''30m''"

subsection \<open>The field mapper: \<^verbatim>\<open>set\<close> and the five setters\<close>

text \<open>
  The \<^verbatim>\<open>reflect.Value\<close> that a setter receives is the field \<open>f\<close> of the record \<open>it\<close>.
  A setter either assigns the field and returns the record, or returns an error and leaves the
  record as it was.
\<close>

definition setString :: "string \<Rightarrow> string \<Rightarrow> 'f item \<Rightarrow> error + 'f item" where
  "setString s f it = Inr (store f (VString s) it)"

definition setIntN :: "string \<Rightarrow> string \<Rightarrow> 'f item \<Rightarrow> nat \<Rightarrow> error + 'f item" where
  "setIntN s f it bits =
     (case ParseInt s bits of None \<Rightarrow> Inl (SetError s) | Some n \<Rightarrow> Inr (store f (VInt n) it))"

definition setUintN :: "string \<Rightarrow> string \<Rightarrow> 'f item \<Rightarrow> nat \<Rightarrow> error + 'f item" where
  "setUintN s f it bits =
     (case ParseUint s bits of None \<Rightarrow> Inl (SetError s) | Some n \<Rightarrow> Inr (store f (VUint n) it))"

definition setFloatN :: "'f world \<Rightarrow> string \<Rightarrow> string \<Rightarrow> 'f item \<Rightarrow> nat \<Rightarrow> error + 'f item" where
  "setFloatN w s f it bits =
     (case ParseFloat w s bits of None \<Rightarrow> Inl (SetError s) | Some n \<Rightarrow> Inr (store f (VFloat n) it))"

definition setBool :: "string \<Rightarrow> string \<Rightarrow> 'f item \<Rightarrow> error + 'f item" where
  "setBool s f it =
     (case ParseBool s of None \<Rightarrow> Inl (SetError s) | Some b \<Rightarrow> Inr (store f (VBool b) it))"

text \<open>\<^verbatim>\<open>set\<close>; \<open>ty\<close> is the struct type of the record.\<close>

definition set_go :: "'f world \<Rightarrow> struct_type \<Rightarrow> string \<Rightarrow> string \<Rightarrow> 'f item \<Rightarrow> error + 'f item" where
  "set_go w ty field s it =
     (case map_of ty field of
        None \<Rightarrow> Inl (FieldError field)
      | Some k \<Rightarrow>
          (case k of
             KString \<Rightarrow> setString s field it
           | KInt bits \<Rightarrow> setIntN s field it bits
           | KUint bits \<Rightarrow> setUintN s field it bits
           | KFloat bits \<Rightarrow> setFloatN w s field it bits
           | KBool \<Rightarrow> setBool s field it
           | KOther t \<Rightarrow> Inl (UnsupportedTypeError field t)))"

subsection \<open>The query argument list\<close>

text \<open>Lines 107 to 117 (and 321 to 331 of the second file): the filter clause.\<close>

definition where_tokens :: "string \<Rightarrow> string list" where
  "where_tokens wh =
     (if wh \<noteq> [] then
        (let parts = Split (TrimSpace wh) (CHR '' '') in
           [''WHERE'']
           @ (if \<not> HasPrefix (hd parts) ''('' then [''(''] else [])
           @ parts
           @ (if \<not> HasSuffix (last parts) '')'' then ['')''] else []))
      else [])"

text \<open>
  Lines 106 to 139: the argument list \<^verbatim>\<open>query\<close>, and the field cache as the call leaves
  it. \<open>fieldCache\<close> is the package's map from struct names to column strings.
\<close>

type_synonym cache = "string \<rightharpoonup> string"

definition query_args :: "cache \<Rightarrow> string \<Rightarrow> string list \<Rightarrow> string \<Rightarrow> 'f dest \<Rightarrow> cache \<times> string list" where
  "query_args fieldCache class columns wh out =
     (let query = [''PATH'', class] @ where_tokens wh @ [''GET''];
          (fieldCache', query) =
            (if length columns = 0 then
               (case fieldCache (structName out) of
                  Some val \<Rightarrow> (fieldCache, query @ [val])
                | None \<Rightarrow>
                    (let colString = Join (map fst (structFields out)) '','' in
                       (fieldCache(structName out \<mapsto> colString), query @ [colString])))
             else (fieldCache, query @ [Join columns '','']))
      in (fieldCache', query @ [''/format:rawxml'', ''/VALUE'']))"

subsection \<open>The decoding loop\<close>

text \<open>The local variables of lines 161 to 203 that the loop changes.\<close>

record 'f scan_state =
  item :: "'f item"
  contentStarted :: bool
  line :: nat
  result :: "'f item list"
  recordErrors :: "RecordError list"

text \<open>
  One turn of the loop of lines 169 to 198, on the token \<open>text\<close> of the scanner. \<open>Inl\<close> is
  one of the two \<^verbatim>\<open>return recordErrors, err\<close> of lines 188 and 190.
\<close>

definition scan_step ::
  "'f::zero world \<Rightarrow> string \<Rightarrow> struct_type \<Rightarrow> 'f scan_state \<Rightarrow> string
     \<Rightarrow> (RecordError list \<times> error) + 'f scan_state" where
  "scan_step w class ty st text =
     (let s = TrimSpace text in
      if s = [] then
        (if contentStarted st then
           Inr (st\<lparr>line := line st + 1, result := result st @ [item st],
                   item := new_item ty, contentStarted := False\<rparr>)
         else Inr st)
      else
        (let st = st\<lparr>contentStarted := True\<rparr>;
             parts = SplitN2 s (CHR ''='')
         in if length parts = 2 then
              (let param = parts ! 0;
                   val = TrimSpace (parts ! 1)
               in if val \<noteq> [] then
                    (case set_go w ty param val (item st) of
                       Inr it \<Rightarrow> Inr (st\<lparr>item := it\<rparr>)
                     | Inl err \<Rightarrow>
                         (case err of
                            FieldError _ \<Rightarrow> Inl (recordErrors st, err)
                          | UnsupportedTypeError _ _ \<Rightarrow> Inl (recordErrors st, err)
                          | _ \<Rightarrow>
                              Inr (st\<lparr>recordErrors := recordErrors st
                                     @ [\<lparr>Class = class, Field = param, Line = line st,
                                          Message = err\<rparr>]\<rparr>)))
                  else Inr st)
            else Inr st))"

fun scan_loop ::
  "'f::zero world \<Rightarrow> string \<Rightarrow> struct_type \<Rightarrow> 'f scan_state \<Rightarrow> string list
     \<Rightarrow> (RecordError list \<times> error) + 'f scan_state" where
  "scan_loop w class ty st [] = Inr st"
| "scan_loop w class ty st (t # ts) =
     (case scan_step w class ty st t of
        Inl e \<Rightarrow> Inl e
      | Inr st' \<Rightarrow> scan_loop w class ty st' ts)"

definition scan_init :: "struct_type \<Rightarrow> 'f::zero scan_state" where
  "scan_init ty =
     \<lparr>item = new_item ty, contentStarted = False, line = 1, result = [], recordErrors = []\<rparr>"

text \<open>
  Lines 161 to 218: the decoding of the text \<open>str\<close> of the output channel into \<open>out\<close>. The
  result is \<open>out\<close> as the call leaves it, and the two values returned.
\<close>

definition decode_output ::
  "'f::zero world \<Rightarrow> string \<Rightarrow> 'f dest \<Rightarrow> string \<Rightarrow> 'f dest \<times> RecordError list \<times> error option" where
  "decode_output w class out str =
     (case scan_loop w class (structFields out) (scan_init (structFields out)) (ScanLines str) of
        Inl (errs, err) \<Rightarrow> (out, errs, Some err)
      | Inr st \<Rightarrow>
          (let res = (if contentStarted st then result st @ [item st] else result st)
           in if canSet out then (out\<lparr>elems := res\<rparr>, recordErrors st, None)
              else (out, [], Some ReflectPanic)))"

subsection \<open>The entry points\<close>

text \<open>
  The result of a call: the field cache and \<open>out\<close> as the call leaves them, and the two
  values returned.
\<close>

definition QueryWithTimeout ::
  "'f::zero world \<Rightarrow> cache \<Rightarrow> string \<Rightarrow> string list \<Rightarrow> string \<Rightarrow> 'f dest \<Rightarrow> string
     \<Rightarrow> cache \<times> 'f dest \<times> RecordError list \<times> error option" where
  "QueryWithTimeout w fieldCache class columns wh out timeout =
     (if \<not> isSlice out then (fieldCache, out, [], Some NotSliceError)
      else if \<not> innerIsStruct out then (fieldCache, out, [], Some NotStructError)
      else
        (let (fieldCache, query) = query_args fieldCache class columns wh out in
         case ParseDuration w timeout of
           None \<Rightarrow> (fieldCache, out, [], Some (DurationError timeout))
         | Some duration \<Rightarrow>
             (let p = wmic w (Some duration) query in
              case RunErr p of
                Some e \<Rightarrow> (fieldCache, out, [], Some (RunError e))
              | None \<Rightarrow>
                  if length (Stderr p) > 0 then (fieldCache, out, [], Some (StderrError (Stderr p)))
                  else (fieldCache, decode_output w class out (Stdout p)))))"

definition Query ::
  "'f::zero world \<Rightarrow> cache \<Rightarrow> string \<Rightarrow> string list \<Rightarrow> string \<Rightarrow> 'f dest
     \<Rightarrow> cache \<times> 'f dest \<times> RecordError list \<times> error option" where
  "Query w fieldCache class columns wh out =
     QueryWithTimeout w fieldCache class [] wh out TIMEOUT_DEFAULT"

definition QueryAll ::
  "'f::zero world \<Rightarrow> cache \<Rightarrow> string \<Rightarrow> 'f dest \<Rightarrow> cache \<times> 'f dest \<times> RecordError list \<times> error option" where
  "QueryAll w fieldCache class out = Query w fieldCache class [] [] out"

definition QueryAllWithTimeout ::
  "'f::zero world \<Rightarrow> cache \<Rightarrow> string \<Rightarrow> 'f dest \<Rightarrow> string
     \<Rightarrow> cache \<times> 'f dest \<times> RecordError list \<times> error option" where
  "QueryAllWithTimeout w fieldCache class out timeout =
     QueryWithTimeout w fieldCache class [] [] out timeout"

definition QueryColumns ::
  "'f::zero world \<Rightarrow> cache \<Rightarrow> string \<Rightarrow> string list \<Rightarrow> 'f dest
     \<Rightarrow> cache \<times> 'f dest \<times> RecordError list \<times> error option" where
  "QueryColumns w fieldCache class columns out = Query w fieldCache class columns [] out"

definition QueryColumnsWithTimeout ::
  "'f::zero world \<Rightarrow> cache \<Rightarrow> string \<Rightarrow> string list \<Rightarrow> 'f dest \<Rightarrow> string
     \<Rightarrow> cache \<times> 'f dest \<times> RecordError list \<times> error option" where
  "QueryColumnsWithTimeout w fieldCache class columns out timeout =
     QueryWithTimeout w fieldCache class columns [] out timeout"

definition QueryWhere ::
  "'f::zero world \<Rightarrow> cache \<Rightarrow> string \<Rightarrow> string \<Rightarrow> 'f dest
     \<Rightarrow> cache \<times> 'f dest \<times> RecordError list \<times> error option" where
  "QueryWhere w fieldCache class wh out = Query w fieldCache class [] wh out"

definition QueryWhereWithTimeout ::
  "'f::zero world \<Rightarrow> cache \<Rightarrow> string \<Rightarrow> string \<Rightarrow> 'f dest \<Rightarrow> string
     \<Rightarrow> cache \<times> 'f dest \<times> RecordError list \<times> error option" where
  "QueryWhereWithTimeout w fieldCache class wh out timeout =
     QueryWithTimeout w fieldCache class [] wh out timeout"

section \<open>The delimited pipeline (the second file)\<close>

text \<open>Lines 320 to 336: the argument list.\<close>

definition query_args_csv :: "string \<Rightarrow> string list \<Rightarrow> string \<Rightarrow> string list" where
  "query_args_csv class columns wh =
     (let query = [''PATH'', class] @ where_tokens wh @ [''GET''];
          query = (if length columns > 0 then query @ [Join columns '',''] else query)
      in query @ [''/format:csv''])"

text \<open>
  Lines 349 to 357: the loop that fills the string builder \<open>sb\<close> from the tokens of the
  scanner.
\<close>

fun strip_loop :: "string \<Rightarrow> string list \<Rightarrow> string" where
  "strip_loop sb [] = sb"
| "strip_loop sb (s # ss) =
     (if TrimSpace s \<noteq> [] then strip_loop (sb @ RemoveAll s (CHR 0x22) @ [CHR 0x0A]) ss
      else strip_loop sb ss)"

text \<open>
  \<^verbatim>\<open>csv.Reader\<close> with \<^verbatim>\<open>TrimLeadingSpace\<close>, on a text without a quote character
  (the loop above has removed them all, so the reader never enters a quoted field and
  \<^verbatim>\<open>LazyQuotes\<close> has nothing to do). The reader takes the text line by line, turns a
  final \<^verbatim>\<open>\\r\\n\<close> into \<^verbatim>\<open>\\n\<close>, skips the lines that are empty then, cuts a line at
  its commas and removes the white space each field starts with.
\<close>

definition csv_record :: "string \<Rightarrow> string list" where
  "csv_record l = map TrimLeft (Split l (CHR '',''))"

definition csv_records :: "string \<Rightarrow> string list list" where
  "csv_records source =
     map csv_record (filter (\<lambda>l. l \<noteq> []) (map dropCR (raw_lines source)))"

text \<open>
  Lines 395 to 412: the loop over \<^verbatim>\<open>dec.Decode\<close>. \<open>recs\<close> is what the reader has left
  to read and \<open>res\<close> is the slice \<^verbatim>\<open>result\<close>. The reader has taken the number of fields of the header as the number every record
  must have (\<^verbatim>\<open>FieldsPerRecord\<close> is 0 at the start), and returns a
  \<^verbatim>\<open>*csv.ParseError\<close> for a record of another length: the loop goes on to the next
  record. At the end of the text \<^verbatim>\<open>Decode\<close> returns \<^verbatim>\<open>io.EOF\<close>; any other error
  of \<^verbatim>\<open>Decode\<close> is returned.
\<close>

fun decode_loop ::
  "'f world \<Rightarrow> struct_type \<Rightarrow> string list \<Rightarrow> string list list \<Rightarrow> 'f item list
     \<Rightarrow> error + 'f item list" where
  "decode_loop w ty header [] res = Inr res"
| "decode_loop w ty header (r # recs) res =
     (if length r \<noteq> length header then decode_loop w ty header recs res
      else (case Unmarshal w ty header r of
              Inl err \<Rightarrow> Inl err
            | Inr i \<Rightarrow> decode_loop w ty header recs (res @ [i])))"

text \<open>
  \<^verbatim>\<open>Query\<close> of the second file: \<open>out\<close> as the call leaves it, and the error returned.
  \<^verbatim>\<open>csvutil.NewDecoder\<close> reads the header, and returns \<^verbatim>\<open>io.EOF\<close> when there is
  none.
\<close>

definition Query_csv ::
  "'f world \<Rightarrow> string \<Rightarrow> string list \<Rightarrow> string \<Rightarrow> 'f dest \<Rightarrow> 'f dest \<times> error option" where
  "Query_csv w class columns wh out =
     (let query = query_args_csv class columns wh;
          p = wmic w None query
      in case RunErr p of
           Some e \<Rightarrow> (out, Some (RunError e))
         | None \<Rightarrow>
             if length (Stderr p) > 0 then (out, Some (StderrError (Stderr p)))
             else
               (let source = strip_loop [] (ScanLines (Stdout p)) in
                if \<not> isSlice out then (out, Some NotSliceError)
                else if \<not> innerIsStruct out then (out, Some NotStructError)
                else
                  (case csv_records source of
                     [] \<Rightarrow> (out, Some EOF)
                   | header # recs \<Rightarrow>
                       (case decode_loop w (structFields out) header recs [] of
                          Inl err \<Rightarrow> (out, Some err)
                        | Inr res \<Rightarrow>
                            if canSet out then (out\<lparr>elems := res\<rparr>, None)
                            else (out, Some ReflectPanic)))))"

definition QueryAll_csv :: "'f world \<Rightarrow> string \<Rightarrow> 'f dest \<Rightarrow> 'f dest \<times> error option" where
  "QueryAll_csv w class out = Query_csv w class [] [] out"

definition QueryColumns_csv ::
  "'f world \<Rightarrow> string \<Rightarrow> string list \<Rightarrow> 'f dest \<Rightarrow> 'f dest \<times> error option" where
  "QueryColumns_csv w class columns out = Query_csv w class columns [] out"

definition QueryWhere_csv ::
  "'f world \<Rightarrow> string \<Rightarrow> string \<Rightarrow> 'f dest \<Rightarrow> 'f dest \<times> error option" where
  "QueryWhere_csv w class wh out = Query_csv w class [] wh out"

text \<open>
  The step of \<^verbatim>\<open>csvutil\<close> for a flat struct without \<^verbatim>\<open>csv\<close> tags, after the
  package's documentation: a field of the struct takes the value of the column that has its
  name (the last one, if several have), a column that no field has is left unused, a field
  that no column has keeps its zero value. A string is taken as it is, an integer, a float
  and a boolean with the \<^verbatim>\<open>strconv\<close> function of its kind, and a value that does not
  parse is an \<^verbatim>\<open>UnmarshalTypeError\<close>. The package finds the decoding function of
  every matched field before it decodes a value, and has none for a struct, a map, an array,
  a channel or a function (the kinds that stand behind \<open>KOther\<close> here).
\<close>

definition csvutil_field :: "'f world \<Rightarrow> kind \<Rightarrow> string \<Rightarrow> error + 'f gvalue" where
  "csvutil_field w k s =
     (case k of
        KString \<Rightarrow> Inr (VString s)
      | KInt bits \<Rightarrow> (case ParseInt s bits of None \<Rightarrow> Inl (UnmarshalTypeError s) | Some n \<Rightarrow> Inr (VInt n))
      | KUint bits \<Rightarrow> (case ParseUint s bits of None \<Rightarrow> Inl (UnmarshalTypeError s) | Some n \<Rightarrow> Inr (VUint n))
      | KFloat bits \<Rightarrow> (case ParseFloat w s bits of None \<Rightarrow> Inl (UnmarshalTypeError s) | Some x \<Rightarrow> Inr (VFloat x))
      | KBool \<Rightarrow> (case ParseBool s of None \<Rightarrow> Inl (UnmarshalTypeError s) | Some b \<Rightarrow> Inr (VBool b))
      | KOther t \<Rightarrow> Inl (UnsupportedFieldType t))"

fun csvutil_fields :: "'f::zero world \<Rightarrow> struct_type \<Rightarrow> (string \<rightharpoonup> string) \<Rightarrow> error + 'f item" where
  "csvutil_fields w [] col = Inr []"
| "csvutil_fields w ((n, k) # fs) col =
     (case col n of
        None \<Rightarrow> (case csvutil_fields w fs col of Inl err \<Rightarrow> Inl err | Inr it \<Rightarrow> Inr ((n, zero_value k) # it))
      | Some s \<Rightarrow>
          (case csvutil_field w k s of
             Inl err \<Rightarrow> Inl err
           | Inr v \<Rightarrow> (case csvutil_fields w fs col of Inl err \<Rightarrow> Inl err | Inr it \<Rightarrow> Inr ((n, v) # it))))"

definition csvutil_unmarshal ::
  "'f::zero world \<Rightarrow> struct_type \<Rightarrow> string list \<Rightarrow> string list \<Rightarrow> error + 'f item" where
  "csvutil_unmarshal w ty header r =
     (let col = map_of (rev (zip header r)) in
      case List.find (\<lambda>(n, k). col n \<noteq> None \<and> (case k of KOther _ \<Rightarrow> True | _ \<Rightarrow> False)) ty of
        Some (n, KOther t) \<Rightarrow> Inl (UnsupportedFieldType t)
      | _ \<Rightarrow> csvutil_fields w ty col)"

section \<open>Inputs for the examples\<close>

text \<open>
  A struct \<^verbatim>\<open>Person\<close> with a string field \<^verbatim>\<open>Name\<close> and a 64-bit integer field
  \<^verbatim>\<open>Age\<close>, and an empty slice of it passed by pointer.
\<close>

definition person :: struct_type where
  "person = [(''Name'', KString), (''Age'', KInt 64)]"

definition people :: "int dest" where
  "people =
     \<lparr>isSlice = True, canSet = True, innerTypeIsPointer = False, innerIsStruct = True,
      structName = ''Person'', structFields = person, elems = []\<rparr>"

text \<open>
  A world without floating point numbers in which \<^verbatim>\<open>30m\<close> is the one duration that
  parses and \<^verbatim>\<open>wmic\<close> prints nothing, and two variants of it: one in which
  \<^verbatim>\<open>wmic\<close> prints its argument list on the error channel, and one in which it prints a
  given text on the output channel and \<^verbatim>\<open>csvutil\<close> is the step written out above.
\<close>

definition silent_world :: "int world" where
  "silent_world =
     \<lparr>ParseFloat = (\<lambda>s bits. None),
      ParseDuration = (\<lambda>s. if s = ''30m'' then Some 1800 else None),
      wmic = (\<lambda>d args. \<lparr>RunErr = None, Stdout = [], Stderr = []\<rparr>),
      Unmarshal = (\<lambda>ty header r. Inl EOF)\<rparr>"

definition echo_world :: "int world" where
  "echo_world =
     silent_world\<lparr>wmic := (\<lambda>d args. \<lparr>RunErr = None, Stdout = [], Stderr = Join args '' ''\<rparr>)\<rparr>"

definition text_world :: "string \<Rightarrow> int world" where
  "text_world str =
     silent_world\<lparr>wmic := (\<lambda>d args. \<lparr>RunErr = None, Stdout = str, Stderr = []\<rparr>),
                  Unmarshal := csvutil_unmarshal silent_world\<rparr>"

section \<open>The query argument list\<close>

lemma Split_not_Nil: "Split s c \<noteq> []"
  by (induction s) (auto split: list.splits)

lemma HasPrefix_single: "HasPrefix s [d] = (s \<noteq> [] \<and> hd s = d)"
  by (cases s) (auto simp: HasPrefix_def)

lemma HasSuffix_single: "HasSuffix s [d] = (s \<noteq> [] \<and> last s = d)"
proof (cases s rule: rev_cases)
  case Nil
  then show ?thesis by (simp add: HasSuffix_def)
next
  case (snoc ys y)
  then show ?thesis by (auto simp: HasSuffix_def)
qed

lemma hd_Split: "hd (Split s c) = takeWhile (\<lambda>x. x \<noteq> c) s"
  by (induction s) (auto split: list.splits simp: Split_not_Nil)

lemma Split_singleton_Nil: "Split s c = [[]] \<longleftrightarrow> s = []"
  by (cases s) (auto split: list.splits simp: Split_not_Nil)

lemma last_Split_end:
  "d \<noteq> c \<Longrightarrow>
     (last (Split s c) \<noteq> [] \<and> last (last (Split s c)) = d) \<longleftrightarrow> (s \<noteq> [] \<and> last s = d)"
proof (induction s)
  case Nil
  then show ?case by simp
next
  case (Cons x xs)
  show ?case
  proof (cases "x = c")
    case True
    with Cons show ?thesis by (auto simp: Split_not_Nil)
  next
    case False
    obtain p ps where ps: "Split xs c = p # ps"
      using Split_not_Nil [of xs c] by (cases "Split xs c") auto
    show ?thesis
    proof (cases ps)
      case Nil
      with ps Cons False show ?thesis
        using Split_singleton_Nil [of xs c] by (cases "p = []") auto
    next
      case (Cons q qs)
      with ps False Cons.IH [OF Cons.prems] show ?thesis by auto
    qed
  qed
qed

text \<open>
  Whether the first piece starts with an opening parenthesis, and whether the last piece ends
  with a closing one, can be read off the trimmed clause itself.
\<close>

lemma first_token_paren: "HasPrefix (hd (Split s (CHR '' ''))) ''('' = HasPrefix s ''(''"
  unfolding hd_Split by (cases s) (auto simp: HasPrefix_single)

lemma last_token_paren: "HasSuffix (last (Split s (CHR '' ''))) '')'' = HasSuffix s '')''"
  using last_Split_end [of "CHR '')''" "CHR '' ''" s] by (simp add: HasSuffix_single)

lemma query_args_shape:
  "\<exists>col. snd (query_args fieldCache class columns wh out) =
           [''PATH'', class] @ where_tokens wh @ [''GET'', col, ''/format:rawxml'', ''/VALUE'']"
  by (simp add: query_args_def Let_def split: option.splits prod.splits)

lemma query_args_csv_shape:
  "query_args_csv class columns wh =
     [''PATH'', class] @ where_tokens wh @ [''GET'']
     @ (if columns = [] then [] else [Join columns '','']) @ [''/format:csv'']"
  by (simp add: query_args_csv_def Let_def)

text \<open>
  C5. For a filter clause that is not empty, both builders emit \<^verbatim>\<open>WHERE\<close> and then the
  pieces of the trimmed clause between its blanks; an opening parenthesis is put before them
  exactly when the first piece does not start with one, and a closing parenthesis after them
  exactly when the last piece does not end with one. So a clause in parentheses is passed as
  it is, and a clause without them is wrapped once. The two tests come to the same as looking
  at the first and the last byte of the trimmed clause.
\<close>

theorem where_clause_wrapped_once:
  assumes "wh \<noteq> []"
  shows "(let parts = Split (TrimSpace wh) (CHR '' '');
              clause = [''WHERE'']
                @ (if HasPrefix (hd parts) ''('' then [] else [''(''])
                @ parts
                @ (if HasSuffix (last parts) '')'' then [] else ['')''])
          in parts \<noteq> []
           \<and> (\<exists>col. snd (query_args fieldCache class columns wh out) =
                  [''PATH'', class] @ clause @ [''GET'', col, ''/format:rawxml'', ''/VALUE''])
           \<and> query_args_csv class columns wh =
                  [''PATH'', class] @ clause @ [''GET'']
                  @ (if columns = [] then [] else [Join columns '','']) @ [''/format:csv'']
           \<and> HasPrefix (hd parts) ''('' = HasPrefix (TrimSpace wh) ''(''
           \<and> HasSuffix (last parts) '')'' = HasSuffix (TrimSpace wh) '')'')"
proof -
  define parts where "parts = Split (TrimSpace wh) (CHR '' '')"
  define clause where "clause = [''WHERE'']
                @ (if HasPrefix (hd parts) ''('' then [] else [''(''])
                @ parts
                @ (if HasSuffix (last parts) '')'' then [] else ['')''])"
  have c: "where_tokens wh = clause"
    using assms by (simp add: where_tokens_def Let_def clause_def parts_def)
  have 1: "parts \<noteq> []"
    by (simp add: parts_def Split_not_Nil)
  have 2: "\<exists>col. snd (query_args fieldCache class columns wh out) =
                  [''PATH'', class] @ clause @ [''GET'', col, ''/format:rawxml'', ''/VALUE'']"
    using query_args_shape [of fieldCache "class" columns wh out] by (simp only: c)
  have 3: "query_args_csv class columns wh =
                  [''PATH'', class] @ clause @ [''GET'']
                  @ (if columns = [] then [] else [Join columns '','']) @ [''/format:csv'']"
    using query_args_csv_shape [of "class" columns wh] by (simp only: c)
  have 4: "HasPrefix (hd parts) ''('' = HasPrefix (TrimSpace wh) ''(''"
    unfolding parts_def by (rule first_token_paren)
  have 5: "HasSuffix (last parts) '')'' = HasSuffix (TrimSpace wh) '')''"
    unfolding parts_def by (rule last_token_paren)
  from 1 2 3 4 5 show ?thesis
    unfolding Let_def parts_def [symmetric] clause_def [symmetric] by (intro conjI)
qed

theorem where_clause_wrapped_once_witness:
  "''Name = 1'' \<noteq> []
   \<and> query_args_csv ''Win32_Process'' [''Name''] ''Name = 1'' =
       [''PATH'', ''Win32_Process'', ''WHERE'', ''('', ''Name'', ''='', ''1'', '')'', ''GET'',
        ''Name'', ''/format:csv'']
   \<and> query_args_csv ''Win32_Process'' [''Name''] ''(Name = 1)'' =
       [''PATH'', ''Win32_Process'', ''WHERE'', ''(Name'', ''='', ''1)'', ''GET'',
        ''Name'', ''/format:csv'']"
proof -
  have h1: "''Name = 1'' \<noteq> []" and h2: "''(Name = 1)'' \<noteq> []" by simp_all
  have t1: "TrimSpace ''Name = 1'' = ''Name = 1''" by code_simp
  have t2: "TrimSpace ''(Name = 1)'' = ''(Name = 1)''" by code_simp
  have s1: "Split ''Name = 1'' (CHR '' '') = [''Name'', ''='', ''1'']" by simp
  have s2: "Split ''(Name = 1)'' (CHR '' '') = [''(Name'', ''='', ''1)'']" by simp
  have a: "query_args_csv ''Win32_Process'' [''Name''] ''Name = 1'' =
       [''PATH'', ''Win32_Process'', ''WHERE'', ''('', ''Name'', ''='', ''1'', '')'', ''GET'',
        ''Name'', ''/format:csv'']"
    using where_clause_wrapped_once [OF h1, of Map.empty "''Win32_Process''" "[''Name'']" people]
    unfolding Let_def t1 s1 by (simp add: HasPrefix_def HasSuffix_def)
  have b: "query_args_csv ''Win32_Process'' [''Name''] ''(Name = 1)'' =
       [''PATH'', ''Win32_Process'', ''WHERE'', ''(Name'', ''='', ''1)'', ''GET'',
        ''Name'', ''/format:csv'']"
    using where_clause_wrapped_once [OF h2, of Map.empty "''Win32_Process''" "[''Name'']" people]
    unfolding Let_def t2 s2 by (simp add: HasPrefix_def HasSuffix_def)
  show ?thesis using h1 a b by blast
qed

text \<open>
  C1. \<^verbatim>\<open>Query\<close> of the first file passes an empty column list on, whatever list it was
  given: asked for the column \<^verbatim>\<open>Name\<close> alone, it runs \<^verbatim>\<open>wmic\<close> with the field
  list of the struct after \<^verbatim>\<open>GET\<close>. (The world is the one in which \<^verbatim>\<open>wmic\<close> prints
  its arguments on the error channel, which the call returns as its error.)
  \<^verbatim>\<open>QueryColumnsWithTimeout\<close> passes the list on as it is.
\<close>

theorem Query_drops_columns:
  "snd (snd (snd (Query echo_world Map.empty ''Win32_Process'' [''Name''] [] people))) =
     Some (StderrError ''PATH Win32_Process GET Name,Age /format:rawxml /VALUE'')
   \<and> snd (snd (snd (QueryColumns echo_world Map.empty ''Win32_Process'' [''Name''] people))) =
     Some (StderrError ''PATH Win32_Process GET Name,Age /format:rawxml /VALUE'')
   \<and> snd (snd (snd (QueryColumnsWithTimeout echo_world Map.empty ''Win32_Process'' [''Name'']
                         people ''30m''))) =
     Some (StderrError ''PATH Win32_Process GET Name /format:rawxml /VALUE'')"
  by code_simp

section \<open>The key/value pipeline: framing and decoding\<close>

text \<open>
  The words of the specification for a trimmed line. \<open>pair_of s\<close> is the name and the trimmed
  value of a line of the form \<^verbatim>\<open>name=value\<close> whose value is not empty after trimming;
  a line without a separator or with an empty value has none.
\<close>

definition pair_of :: "string \<Rightarrow> (string \<times> string) option" where
  "pair_of s =
     (case dropWhile (\<lambda>x. x \<noteq> CHR ''='') s of
        [] \<Rightarrow> None
      | _ # raw \<Rightarrow>
          if TrimSpace raw = [] then None
          else Some (takeWhile (\<lambda>x. x \<noteq> CHR ''='') s, TrimSpace raw))"

text \<open>
  The type coercer: the value of kind \<open>k\<close> that the raw string \<open>v\<close> stands for, if it
  parses and fits. There is none for a kind outside the five scalar ones.
\<close>

definition coerce :: "'f world \<Rightarrow> kind \<Rightarrow> string \<Rightarrow> 'f gvalue option" where
  "coerce w k v =
     (case k of
        KString \<Rightarrow> Some (VString v)
      | KInt bits \<Rightarrow> map_option VInt (ParseInt v bits)
      | KUint bits \<Rightarrow> map_option VUint (ParseUint v bits)
      | KFloat bits \<Rightarrow> map_option VFloat (ParseFloat w v bits)
      | KBool \<Rightarrow> map_option VBool (ParseBool v)
      | KOther t \<Rightarrow> None)"

definition scalar :: "kind \<Rightarrow> bool" where
  "scalar k = (case k of KOther t \<Rightarrow> False | _ \<Rightarrow> True)"

text \<open>The fatal error that a trimmed line raises on a struct type, if it raises one.\<close>

definition fatal_of :: "struct_type \<Rightarrow> string \<Rightarrow> error option" where
  "fatal_of ty s =
     (case pair_of s of
        None \<Rightarrow> None
      | Some (f, v) \<Rightarrow>
          (case map_of ty f of
             None \<Rightarrow> Some (FieldError f)
           | Some (KOther t) \<Rightarrow> Some (UnsupportedTypeError f t)
           | Some _ \<Rightarrow> None))"

text \<open>
  The framing: the rows of a list of tokens are the maximal runs of lines that are not blank,
  each line trimmed. The fields of a row are the pairs of its lines, in order. The record
  decoded from a row is a fresh record to which \<^verbatim>\<open>set\<close> has been applied for every field
  in turn, a field that fails to coerce being left as it is.
\<close>

definition kv_rows :: "string list \<Rightarrow> string list list" where
  "kv_rows tokens = filter (\<lambda>b. b \<noteq> []) (Split (map TrimSpace tokens) [])"

definition row_fields :: "string list \<Rightarrow> (string \<times> string) list" where
  "row_fields b = List.map_filter pair_of b"

definition set_or_keep :: "'f world \<Rightarrow> struct_type \<Rightarrow> 'f item \<Rightarrow> string \<times> string \<Rightarrow> 'f item" where
  "set_or_keep w ty it fv =
     (case set_go w ty (fst fv) (snd fv) it of Inl err \<Rightarrow> it | Inr it' \<Rightarrow> it')"

definition decode_row :: "'f::zero world \<Rightarrow> struct_type \<Rightarrow> (string \<times> string) list \<Rightarrow> 'f item" where
  "decode_row w ty fvs = foldl (set_or_keep w ty) (new_item ty) fvs"

text \<open>What the loop returns when the scanner is at its end: lines 200 to 203.\<close>

definition final_rows :: "'f scan_state \<Rightarrow> 'f item list" where
  "final_rows st = (if contentStarted st then result st @ [item st] else result st)"

subsection \<open>One turn of the loop\<close>

lemma SplitN2_pair:
  "SplitN2 s (CHR ''='') =
     (case dropWhile (\<lambda>x. x \<noteq> CHR ''='') s of
        [] \<Rightarrow> [s]
      | _ # raw \<Rightarrow> [takeWhile (\<lambda>x. x \<noteq> CHR ''='') s, raw])"
  by (simp add: SplitN2_def)

lemma set_go_eq:
  "set_go w ty f v it =
     (case map_of ty f of
        None \<Rightarrow> Inl (FieldError f)
      | Some k \<Rightarrow>
          (case k of
             KOther t \<Rightarrow> Inl (UnsupportedTypeError f t)
           | _ \<Rightarrow> (case coerce w k v of None \<Rightarrow> Inl (SetError v) | Some x \<Rightarrow> Inr (store f x it))))"
  by (simp add: set_go_def setString_def setIntN_def setUintN_def setFloatN_def setBool_def
      coerce_def split: option.splits kind.splits)

lemma scan_step_blank:
  "TrimSpace t = [] \<Longrightarrow>
     scan_step w class ty st t =
       Inr (if contentStarted st
            then st\<lparr>line := line st + 1, result := result st @ [item st],
                    item := new_item ty, contentStarted := False\<rparr>
            else st)"
  by (simp add: scan_step_def)

text \<open>The turn of the loop on a line that is not blank, in the words of \<open>pair_of\<close>.\<close>

lemma scan_step_nonblank:
  assumes "TrimSpace t \<noteq> []"
  shows "scan_step w class ty st t =
     (case pair_of (TrimSpace t) of
        None \<Rightarrow> Inr (st\<lparr>contentStarted := True\<rparr>)
      | Some (f, v) \<Rightarrow>
          (case set_go w ty f v (item st) of
             Inr it \<Rightarrow> Inr (st\<lparr>contentStarted := True, item := it\<rparr>)
           | Inl err \<Rightarrow>
               (case err of
                  FieldError _ \<Rightarrow> Inl (recordErrors st, err)
                | UnsupportedTypeError _ _ \<Rightarrow> Inl (recordErrors st, err)
                | _ \<Rightarrow>
                    Inr (st\<lparr>contentStarted := True,
                            recordErrors := recordErrors st
                              @ [\<lparr>Class = class, Field = f, Line = line st, Message = err\<rparr>]\<rparr>))))"
proof (cases "dropWhile (\<lambda>x. x \<noteq> CHR ''='') (TrimSpace t)")
  case Nil
  show ?thesis
    using assms unfolding scan_step_def SplitN2_def pair_of_def Let_def Nil by simp
next
  case (Cons a raw)
  show ?thesis
  proof (cases "TrimSpace raw = []")
    case True
    with assms show ?thesis
      unfolding scan_step_def SplitN2_def pair_of_def Let_def Cons by simp
  next
    case False
    with assms show ?thesis
      unfolding scan_step_def SplitN2_def pair_of_def Let_def Cons
      by (simp split: sum.splits error.splits)
  qed
qed

lemma scan_step_ignored:
  "TrimSpace t \<noteq> [] \<Longrightarrow> pair_of (TrimSpace t) = None \<Longrightarrow>
     scan_step w class ty st t = Inr (st\<lparr>contentStarted := True\<rparr>)"
  by (simp add: scan_step_nonblank)

lemma scan_step_unknown:
  "TrimSpace t \<noteq> [] \<Longrightarrow> pair_of (TrimSpace t) = Some (f, v) \<Longrightarrow> map_of ty f = None \<Longrightarrow>
     scan_step w class ty st t = Inl (recordErrors st, FieldError f)"
  by (simp add: scan_step_nonblank set_go_eq)

lemma scan_step_unsupported:
  "TrimSpace t \<noteq> [] \<Longrightarrow> pair_of (TrimSpace t) = Some (f, v) \<Longrightarrow> map_of ty f = Some (KOther k) \<Longrightarrow>
     scan_step w class ty st t = Inl (recordErrors st, UnsupportedTypeError f k)"
  by (simp add: scan_step_nonblank set_go_eq)

lemma scan_step_coercion:
  "TrimSpace t \<noteq> [] \<Longrightarrow> pair_of (TrimSpace t) = Some (f, v) \<Longrightarrow> map_of ty f = Some k \<Longrightarrow>
   scalar k \<Longrightarrow> coerce w k v = None \<Longrightarrow>
     scan_step w class ty st t =
       Inr (st\<lparr>contentStarted := True,
               recordErrors := recordErrors st
                 @ [\<lparr>Class = class, Field = f, Line = line st, Message = SetError v\<rparr>]\<rparr>)"
  by (cases k) (simp_all add: scan_step_nonblank set_go_eq scalar_def)

lemma scan_step_assign:
  "TrimSpace t \<noteq> [] \<Longrightarrow> pair_of (TrimSpace t) = Some (f, v) \<Longrightarrow> map_of ty f = Some k \<Longrightarrow>
   coerce w k v = Some x \<Longrightarrow>
     scan_step w class ty st t = Inr (st\<lparr>contentStarted := True, item := store f x (item st)\<rparr>)"
  by (cases k) (auto simp: scan_step_nonblank set_go_eq coerce_def)


subsection \<open>The loop\<close>

lemma scan_loop_append:
  "scan_loop w class ty st (xs @ ys) =
     (case scan_loop w class ty st xs of
        Inl e \<Rightarrow> Inl e
      | Inr st' \<Rightarrow> scan_loop w class ty st' ys)"
  by (induction xs arbitrary: st) (auto split: sum.splits)

lemma fatal_of_Nil: "fatal_of ty [] = None"
  by (simp add: fatal_of_def pair_of_def)

lemma scan_step_fatal:
  assumes "fatal_of ty (TrimSpace t) = Some e"
  shows "scan_step w class ty st t = Inl (recordErrors st, e)"
proof -
  from assms have nb: "TrimSpace t \<noteq> []"
    by (auto simp: fatal_of_Nil)
  from assms obtain f v where p: "pair_of (TrimSpace t) = Some (f, v)"
    by (auto simp: fatal_of_def split: option.splits)
  show ?thesis
  proof (cases "map_of ty f")
    case None
    with assms p show ?thesis
      by (simp add: fatal_of_def scan_step_unknown [OF nb p None])
  next
    case (Some k)
    with assms p obtain u where k: "k = KOther u" and e: "e = UnsupportedTypeError f u"
      by (cases k) (auto simp: fatal_of_def)
    from Some k have "map_of ty f = Some (KOther u)" by simp
    from scan_step_unsupported [OF nb p this] e show ?thesis by simp
  qed
qed

text \<open>A turn of the loop on a line that raises no fatal error, as a function of the state.\<close>

definition turn :: "'f::zero world \<Rightarrow> string \<Rightarrow> struct_type \<Rightarrow> 'f scan_state \<Rightarrow> string \<Rightarrow> 'f scan_state" where
  "turn w class ty st t = (case scan_step w class ty st t of Inl e \<Rightarrow> st | Inr st' \<Rightarrow> st')"

lemma scan_step_nonfatal:
  assumes "fatal_of ty (TrimSpace t) = None"
  shows "scan_step w class ty st t = Inr (turn w class ty st t)"
proof (cases "TrimSpace t = []")
  case True
  then show ?thesis by (simp add: turn_def scan_step_blank)
next
  case nb: False
  show ?thesis
  proof (cases "pair_of (TrimSpace t)")
    case None
    then show ?thesis by (simp add: turn_def scan_step_ignored [OF nb])
  next
    case (Some fv)
    obtain f v where fv: "fv = (f, v)" by (cases fv)
    with Some have p: "pair_of (TrimSpace t) = Some (f, v)" by simp
    from assms p obtain k where k: "map_of ty f = Some k" and sc: "scalar k"
      by (auto simp: fatal_of_def scalar_def split: option.splits kind.splits)
    show ?thesis
    proof (cases "coerce w k v")
      case None
      from scan_step_coercion [OF nb p k sc None] show ?thesis by (simp add: turn_def)
    next
      case (Some x)
      from scan_step_assign [OF nb p k Some] show ?thesis by (simp add: turn_def)
    qed
  qed
qed

lemma scan_loop_nonfatal:
  "\<forall>t \<in> set ts. fatal_of ty (TrimSpace t) = None \<Longrightarrow>
     scan_loop w class ty st ts = Inr (foldl (turn w class ty) st ts)"
  by (induction ts arbitrary: st) (simp_all add: scan_step_nonfatal)

lemma scan_loop_first_fatal:
  assumes "\<forall>t \<in> set pre. fatal_of ty (TrimSpace t) = None"
    and "fatal_of ty (TrimSpace t) = Some e"
  shows "scan_loop w class ty st (pre @ t # post) =
           Inl (recordErrors (foldl (turn w class ty) st pre), e)"
  using assms by (simp add: scan_loop_append scan_loop_nonfatal scan_step_fatal)

subsection \<open>Fatal errors\<close>

lemma first_fatal:
  assumes "x \<in> set ts" and "fatal_of ty (TrimSpace x) \<noteq> None"
  shows "\<exists>pre t post e. ts = pre @ t # post
           \<and> (\<forall>y \<in> set pre. fatal_of ty (TrimSpace y) = None)
           \<and> fatal_of ty (TrimSpace t) = Some e"
proof -
  from assms have "\<exists>x \<in> set ts. fatal_of ty (TrimSpace x) \<noteq> None" by blast
  from split_list_first_prop [OF this] obtain pre t post where
    "ts = pre @ t # post" "fatal_of ty (TrimSpace t) \<noteq> None"
    "\<forall>y \<in> set pre. \<not> fatal_of ty (TrimSpace y) \<noteq> None"
    by blast
  then show ?thesis by auto
qed

lemma decode_output_fatal:
  assumes "ScanLines str = pre @ t # post"
    and "\<forall>y \<in> set pre. fatal_of (structFields out) (TrimSpace y) = None"
    and "fatal_of (structFields out) (TrimSpace t) = Some e"
  shows "decode_output w class out str =
           (out, recordErrors (foldl (turn w class (structFields out))
                   (scan_init (structFields out)) pre), Some e)"
  using assms by (simp add: decode_output_def scan_loop_first_fatal)

text \<open>
  C3, as amended. When a line \<^verbatim>\<open>name=value\<close> with a value that is not empty names a field
  that the struct type does not have, the line is fatal, and the call stops at the first fatal
  line of the text, which is this line or one before it: it returns the error of that line
  (the unknown-field error of this line when none before it is fatal) and leaves \<open>out\<close> as the
  caller passed it, whatever rows the text holds.
\<close>

theorem unknown_field_aborts:
  assumes "x \<in> set (ScanLines str)"
    and "pair_of (TrimSpace x) = Some (f, v)"
    and "map_of (structFields out) f = None"
  shows "fatal_of (structFields out) (TrimSpace x) = Some (FieldError f)
       \<and> (\<exists>pre t post e errs.
             ScanLines str = pre @ t # post
           \<and> (\<forall>y \<in> set pre. fatal_of (structFields out) (TrimSpace y) = None)
           \<and> fatal_of (structFields out) (TrimSpace t) = Some e
           \<and> decode_output w class out str = (out, errs, Some e))"
proof -
  have fx: "fatal_of (structFields out) (TrimSpace x) = Some (FieldError f)"
    using assms(2,3) by (simp add: fatal_of_def)
  then have "fatal_of (structFields out) (TrimSpace x) \<noteq> None" by simp
  from first_fatal [OF assms(1) this] obtain pre t post e where d:
    "ScanLines str = pre @ t # post"
    "\<forall>y \<in> set pre. fatal_of (structFields out) (TrimSpace y) = None"
    "fatal_of (structFields out) (TrimSpace t) = Some e"
    by blast
  have r: "decode_output w class out str =
          (out, recordErrors (foldl (turn w class (structFields out))
                   (scan_init (structFields out)) pre), Some e)"
    by (rule decode_output_fatal [OF d])
  have "\<exists>pre t post e errs.
             ScanLines str = pre @ t # post
           \<and> (\<forall>y \<in> set pre. fatal_of (structFields out) (TrimSpace y) = None)
           \<and> fatal_of (structFields out) (TrimSpace t) = Some e
           \<and> decode_output w class out str = (out, errs, Some e)"
    apply (rule exI [where x = pre])
    apply (rule exI [where x = t])
    apply (rule exI [where x = post])
    apply (rule exI [where x = e])
    apply (rule exI [where x = "recordErrors (foldl (turn w class (structFields out))
                   (scan_init (structFields out)) pre)"])
    apply (intro conjI)
       apply (rule d(1))
      apply (rule d(2))
     apply (rule d(3))
    apply (rule r)
    done
  with fx show ?thesis by (rule conjI)
qed

text \<open>
  C10. When the loop has come through the tokens before \<open>t\<close> and is in the state \<open>st\<close>, and
  \<open>t\<close> raises a fatal error (an unknown field or a field of an unsupported type), the call
  returns that error together with the coercion errors collected so far, and \<open>out\<close> is the
  value the caller passed.
\<close>

theorem fatal_keeps_out_and_errors:
  assumes "ScanLines str = pre @ t # post"
    and "scan_loop w class (structFields out) (scan_init (structFields out)) pre = Inr st"
    and "fatal_of (structFields out) (TrimSpace t) = Some e"
  shows "decode_output w class out str = (out, recordErrors st, Some e)"
  using assms by (simp add: decode_output_def scan_loop_append scan_step_fatal)

text \<open>
  Two rows, the second with a field \<^verbatim>\<open>Bogus\<close> that \<^verbatim>\<open>Person\<close> does not have, decoded
  into a slice that holds one record already.
\<close>

definition one_person :: "int dest" where
  "one_person = people\<lparr>elems := [[(''Name'', VString ''Zoe''), (''Age'', VInt 7)]]\<rparr>"

definition bogus_text :: string where
  "bogus_text = ''Name=Alice\<newline>Age=x\<newline>\<newline>Bogus=1\<newline>Name=Bob\<newline>''"

lemma ScanLines_bogus_text:
  "ScanLines bogus_text = [''Name=Alice'', ''Age=x'', []] @ ''Bogus=1'' # [''Name=Bob'']"
  by code_simp

theorem unknown_field_aborts_witness:
  "''Bogus=1'' \<in> set (ScanLines bogus_text)
   \<and> pair_of (TrimSpace ''Bogus=1'') = Some (''Bogus'', ''1'')
   \<and> map_of (structFields one_person) ''Bogus'' = None
   \<and> (\<exists>errs e. decode_output silent_world ''Win32_Process'' one_person bogus_text =
         (one_person, errs, Some e))"
proof -
  have h1: "''Bogus=1'' \<in> set (ScanLines bogus_text)"
    by (simp add: ScanLines_bogus_text)
  have h2: "pair_of (TrimSpace ''Bogus=1'') = Some (''Bogus'', ''1'')"
    by code_simp
  have h3: "map_of (structFields one_person) ''Bogus'' = None"
    by code_simp
  from unknown_field_aborts [OF h1 h2 h3, of silent_world "''Win32_Process''"]
  have "\<exists>errs e. decode_output silent_world ''Win32_Process'' one_person bogus_text =
         (one_person, errs, Some e)"
    apply (elim conjE exE)
    apply (rule exI, rule exI)
    apply assumption
    done
  with h1 h2 h3 show ?thesis by (intro conjI)
qed

text \<open>
  The claim as it stands fails there: the call returns the unknown-field error, and the
  collection still holds the record it held.
\<close>

theorem unknown_field_collection_not_empty:
  "decode_output silent_world ''Win32_Process'' one_person bogus_text =
     (one_person,
      [\<lparr>Class = ''Win32_Process'', Field = ''Age'', Line = 1, Message = SetError ''x''\<rparr>],
      Some (FieldError ''Bogus''))
   \<and> elems one_person \<noteq> []"
  by code_simp

theorem fatal_keeps_out_and_errors_witness:
  "ScanLines bogus_text = [''Name=Alice'', ''Age=x'', []] @ ''Bogus=1'' # [''Name=Bob'']
   \<and> scan_loop silent_world ''Win32_Process'' (structFields one_person)
        (scan_init (structFields one_person)) [''Name=Alice'', ''Age=x'', []] =
       Inr \<lparr>item = [(''Name'', VString []), (''Age'', VInt 0)], contentStarted = False, line = 2,
            result = [[(''Name'', VString ''Alice''), (''Age'', VInt 0)]],
            recordErrors = [\<lparr>Class = ''Win32_Process'', Field = ''Age'', Line = 1,
                              Message = SetError ''x''\<rparr>]\<rparr>
   \<and> fatal_of (structFields one_person) (TrimSpace ''Bogus=1'') = Some (FieldError ''Bogus'')
   \<and> decode_output silent_world ''Win32_Process'' one_person bogus_text =
       (one_person,
        [\<lparr>Class = ''Win32_Process'', Field = ''Age'', Line = 1, Message = SetError ''x''\<rparr>],
        Some (FieldError ''Bogus''))"
proof -
  have h2: "scan_loop silent_world ''Win32_Process'' (structFields one_person)
        (scan_init (structFields one_person)) [''Name=Alice'', ''Age=x'', []] =
       Inr \<lparr>item = [(''Name'', VString []), (''Age'', VInt 0)], contentStarted = False, line = 2,
            result = [[(''Name'', VString ''Alice''), (''Age'', VInt 0)]],
            recordErrors = [\<lparr>Class = ''Win32_Process'', Field = ''Age'', Line = 1,
                              Message = SetError ''x''\<rparr>]\<rparr>"
    by code_simp
  have h3: "fatal_of (structFields one_person) (TrimSpace ''Bogus=1'') = Some (FieldError ''Bogus'')"
    by code_simp
  from fatal_keeps_out_and_errors [OF ScanLines_bogus_text h2 h3] ScanLines_bogus_text h2 h3
  show ?thesis by simp
qed

end
